theory Spec2Isabelle
  imports Main "HOL-Library.Monad_Syntax"
begin

unbundle bit_operations_syntax

section \<open>The feed document (scripts/verify\_rss.go, lines 57--74)\<close>

text \<open>
  The three structs that \<^verbatim>\<open>xml.Unmarshal\<close> fills. Go strings are byte sequences, and so
  are HOL strings. A missing XML element leaves the field at its zero value, the empty
  string.
\<close>

record Item =
  Title :: string
  Description :: string
  PubDate :: string
  GUID :: string

record Channel =
  Title :: string
  Description :: string
  PubDate :: string
  Items :: "Item list"

record RSS =
  XMLName :: "string \<times> string"
  Channel :: Channel

section \<open>Errors\<close>

text \<open>
  \<^verbatim>\<open>fmt.Errorf\<close> without \<^verbatim>\<open>%w\<close> builds an error that is only its message;
  \<^verbatim>\<open>errors.Join\<close> builds an error that holds the joined errors in order. The Go value
  \<^verbatim>\<open>nil\<close> of type \<^verbatim>\<open>error\<close> is \<open>None\<close>.
\<close>

datatype error = errorString string | joinError "error list"

text \<open>\<^verbatim>\<open>joinError.Error\<close>: the messages, separated by a newline.\<close>

fun join_lines :: "string list \<Rightarrow> string" where
  "join_lines [] = []"
| "join_lines [m] = m"
| "join_lines (m # ms) = m @ [CHR 0x0A] @ join_lines ms"

fun Error :: "error \<Rightarrow> string" where
  "Error (errorString s) = s"
| "Error (joinError errs) = join_lines (map Error errs)"

text \<open>\<^verbatim>\<open>errors.Join\<close>: drops the nil errors, and is nil when nothing is left.\<close>

definition Join :: "error option list \<Rightarrow> error option" where
  "Join errs =
     (let es = List.map_filter (\<lambda>e. e) errs
      in if es = [] then None else Some (joinError es))"

section \<open>The time package, as used with the layout RFC1123Z\<close>

text \<open>
  The program calls \<^verbatim>\<open>time.Parse\<close>, \<^verbatim>\<open>Time.Format\<close> and \<^verbatim>\<open>Time.Equal\<close> of the Go standard
  library, always with the layout \<^verbatim>\<open>"Mon, 02 Jan 2006 15:04:05 -0700"\<close>. This section
  follows the library's functions for that layout, chunk by chunk.

  A \<open>Time\<close> is an instant (seconds since January 1 of year 1, 00:00:00 UTC, and
  nanoseconds within the second) and the offset of its location in seconds east of UTC.
  The library counts days from an epoch that lies a multiple of 400 years before year 1, to
  stay within unsigned numbers; here the days are integers counted from year 1, and
  \<open>div\<close> and \<open>mod\<close> round down, which gives the same calendar.
\<close>

record Time =
  abs_sec :: int
  nsec :: int
  loc_offset :: int

definition Equal :: "Time \<Rightarrow> Time \<Rightarrow> bool" where
  "Equal t u = (abs_sec t = abs_sec u \<and> nsec t = nsec u)"

definition shortDayNames :: "string list" where
  "shortDayNames = [''Sun'', ''Mon'', ''Tue'', ''Wed'', ''Thu'', ''Fri'', ''Sat'']"

definition longDayNames :: "string list" where
  "longDayNames = [''Sunday'', ''Monday'', ''Tuesday'', ''Wednesday'', ''Thursday'',
     ''Friday'', ''Saturday'']"

definition shortMonthNames :: "string list" where
  "shortMonthNames = [''Jan'', ''Feb'', ''Mar'', ''Apr'', ''May'', ''Jun'', ''Jul'',
     ''Aug'', ''Sep'', ''Oct'', ''Nov'', ''Dec'']"

definition longMonthNames :: "string list" where
  "longMonthNames = [''January'', ''February'', ''March'', ''April'', ''May'', ''June'',
     ''July'', ''August'', ''September'', ''October'', ''November'', ''December'']"

definition daysBefore :: "int list" where
  "daysBefore = [0, 31, 59, 90, 120, 151, 181, 212, 243, 273, 304, 334, 365]"

subsection \<open>Calendar arithmetic\<close>

definition isLeap :: "int \<Rightarrow> bool" where
  "isLeap year = (year mod 4 = 0 \<and> (year mod 100 \<noteq> 0 \<or> year mod 400 = 0))"

definition daysIn :: "int \<Rightarrow> int \<Rightarrow> int" where
  "daysIn m year =
     (if m = 2 \<and> isLeap year then 29
      else daysBefore ! nat m - daysBefore ! nat (m - 1))"

text \<open>\<^verbatim>\<open>norm\<close>: carries what \<open>lo\<close> has beyond \<open>[0, base)\<close> into \<open>hi\<close>.\<close>

definition norm :: "int \<Rightarrow> int \<Rightarrow> int \<Rightarrow> int \<times> int" where
  "norm hi lo base = (hi + lo div base, lo mod base)"

definition daysSinceEpoch :: "int \<Rightarrow> int" where
  "daysSinceEpoch year =
     (let y = year - 1;
          n400 = y div 400; y = y - 400 * n400; d = 146097 * n400;
          n100 = y div 100; y = y - 100 * n100; d = d + 36524 * n100;
          n4 = y div 4; y = y - 4 * n4; d = d + 1461 * n4
      in d + 365 * y)"

text \<open>\<^verbatim>\<open>Date\<close> in the location UTC: the seconds of the instant.\<close>

definition Date :: "int \<Rightarrow> int \<Rightarrow> int \<Rightarrow> int \<Rightarrow> int \<Rightarrow> int \<Rightarrow> int \<Rightarrow> int \<times> int" where
  "Date year0 month0 day0 hour0 min0 sec0 nsec0 =
     (let (year, m) = norm year0 (month0 - 1) 12;
          month = m + 1;
          (sec, nsec) = norm sec0 nsec0 1000000000;
          (min, sec) = norm min0 sec 60;
          (hour, min) = norm hour0 min 60;
          (day, hour) = norm day0 hour 24;
          d = daysSinceEpoch year + daysBefore ! nat (month - 1);
          d = (if isLeap year \<and> month \<ge> 3 then d + 1 else d);
          d = d + (day - 1)
      in (d * 86400 + (hour * 3600 + min * 60 + sec), nsec))"

definition absWeekday :: "int \<Rightarrow> nat" where
  "absWeekday t = nat (((t + 1 * 86400) mod 604800) div 86400)"

definition absClock :: "int \<Rightarrow> int \<times> int \<times> int" where
  "absClock t =
     (let sec = t mod 86400;
          hour = sec div 3600; sec = sec - hour * 3600;
          min = sec div 60; sec = sec - min * 60
      in (hour, min, sec))"

definition absDate :: "int \<Rightarrow> int \<times> int \<times> int" where
  "absDate t =
     (let d = t div 86400;
          n = d div 146097; y = 400 * n; d = d - 146097 * n;
          n = d div 36524; n = n - n div 4; y = y + 100 * n; d = d - 36524 * n;
          n = d div 1461; y = y + 4 * n; d = d - 1461 * n;
          n = d div 365; n = n - n div 4; y = y + n; d = d - 365 * n;
          year = y + 1;
          day = d
      in if isLeap year \<and> day = 31 + 29 - 1 then (year, 2, 29)
         else
           (let day = (if isLeap year \<and> day > 31 + 29 - 1 then day - 1 else day);
                month = day div 31;
                end = daysBefore ! nat (month + 1);
                (month, begin) =
                  (if day \<ge> end then (month + 1, end) else (month, daysBefore ! nat month))
            in (year, month + 1, day - begin + 1)))"

subsection \<open>Formatting\<close>

definition digit_char :: "nat \<Rightarrow> char" where
  "digit_char u = char_of (48 + u)"

function utoa :: "nat \<Rightarrow> string" where
  "utoa u = (if u < 10 then [digit_char u] else utoa (u div 10) @ [digit_char (u mod 10)])"
  by pat_completeness auto
termination
  by (relation "measure (\<lambda>u. u)") auto

declare utoa.simps [simp del]

text \<open>\<^verbatim>\<open>appendInt\<close>: the decimal form of \<open>x\<close>, padded with zeros to the width.\<close>

definition appendInt :: "int \<Rightarrow> nat \<Rightarrow> string" where
  "appendInt x width =
     (let u = nat \<bar>x\<bar>; ds = utoa u
      in (if x < 0 then ''-'' else []) @ replicate (width - length ds) (CHR ''0'') @ ds)"

text \<open>Go's division of integers truncates towards zero.\<close>

definition quo :: "int \<Rightarrow> int \<Rightarrow> int" where
  "quo a b = sgn a * sgn b * (\<bar>a\<bar> div \<bar>b\<bar>)"

definition Format :: "Time \<Rightarrow> string" where
  "Format t =
     (let offset = loc_offset t;
          a = abs_sec t + offset;
          (year, month, day) = absDate a;
          (hour, min, sec) = absClock a;
          zone = quo offset 60;
          sign = (if zone < 0 then ''-'' else ''+'');
          zone = (if zone < 0 then - zone else zone)
      in take 3 (longDayNames ! absWeekday a) @ '', '' @ appendInt day 2 @ '' ''
         @ take 3 (longMonthNames ! nat (month - 1)) @ '' '' @ appendInt year 4 @ '' ''
         @ appendInt hour 2 @ '':'' @ appendInt min 2 @ '':'' @ appendInt sec 2 @ '' ''
         @ sign @ appendInt (zone div 60) 2 @ appendInt (zone mod 60) 2)"

subsection \<open>Parsing\<close>

definition isDigit :: "string \<Rightarrow> nat \<Rightarrow> bool" where
  "isDigit s i =
     (if length s \<le> i then False
      else (48::nat) \<le> of_char (s ! i) \<and> (of_char (s ! i) :: nat) \<le> 57)"

definition digit_val :: "char \<Rightarrow> int" where
  "digit_val c = int (of_char c) - 48"

text \<open>\<^verbatim>\<open>getnum\<close>: one or two digits; exactly two when \<open>fixed\<close>.\<close>

definition getnum :: "string \<Rightarrow> bool \<Rightarrow> (int \<times> string) option" where
  "getnum s fixed =
     (if \<not> isDigit s 0 then None
      else if \<not> isDigit s 1 then
        (if fixed then None else Some (digit_val (s ! 0), drop 1 s))
      else Some (digit_val (s ! 0) * 10 + digit_val (s ! 1), drop 2 s))"

fun cutspace :: "string \<Rightarrow> string" where
  "cutspace [] = []"
| "cutspace (c # s) = (if c = CHR '' '' then cutspace s else c # s)"

text \<open>
  \<^verbatim>\<open>skip\<close>: removes the layout's literal text from the input. A space of the layout stands
  for any run of spaces, also an empty one at the end of the input.
\<close>

function skip :: "string \<Rightarrow> string \<Rightarrow> string option" where
  "skip val [] = Some val"
| "skip val (p # prefix) =
     (if p = CHR '' '' then
        (if val \<noteq> [] \<and> hd val \<noteq> CHR '' '' then None
         else skip (cutspace val) (cutspace prefix))
      else if val = [] \<or> hd val \<noteq> p then None
      else skip (tl val) prefix)"
  by pat_completeness auto
termination
proof -
  have shorter: "length (cutspace s) \<le> length s" for s
    by (induction s) auto
  show ?thesis
    by (relation "measure (\<lambda>(val, prefix). length prefix)")
       (auto simp: shorter less_Suc_eq_le)
qed

text \<open>
  \<^verbatim>\<open>match\<close>: equality of two strings of the same length, ignoring the case of ASCII letters.
  Its only caller passes strings of equal length; Go would fail on a shorter second string.
\<close>

fun match :: "string \<Rightarrow> string \<Rightarrow> bool" where
  "match [] s2 = True"
| "match (c1 # s1) [] = False"
| "match (c1 # s1) (c2 # s2) =
     (if c1 \<noteq> c2 then
        (let l1 = (of_char c1 :: nat) OR 32; l2 = (of_char c2 :: nat) OR 32
         in if l1 \<noteq> l2 \<or> l1 < 97 \<or> l1 > 122 then False else match s1 s2)
      else match s1 s2)"

text \<open>\<^verbatim>\<open>lookup\<close>: the index of the first name of the table that starts the input.\<close>

fun lookup_from :: "nat \<Rightarrow> string list \<Rightarrow> string \<Rightarrow> (nat \<times> string) option" where
  "lookup_from i [] val = None"
| "lookup_from i (v # tab) val =
     (if length val \<ge> length v \<and> match (take (length v) val) v
      then Some (i, drop (length v) val)
      else lookup_from (Suc i) tab val)"

definition lookup :: "string list \<Rightarrow> string \<Rightarrow> (nat \<times> string) option" where
  "lookup tab val = lookup_from 0 tab val"

text \<open>\<^verbatim>\<open>leadingInt\<close>: the leading digits as a number, with the library's overflow test.\<close>

fun leadingInt_loop :: "int \<Rightarrow> string \<Rightarrow> (int \<times> string) option" where
  "leadingInt_loop x [] = Some (x, [])"
| "leadingInt_loop x (c # s) =
     (if (of_char c :: nat) < 48 \<or> (of_char c :: nat) > 57 then Some (x, c # s)
      else if x > 2 ^ 63 div 10 then None
      else (let x' = x * 10 + int (of_char c) - 48
            in if x' > 2 ^ 63 then None else leadingInt_loop x' s))"

definition leadingInt :: "string \<Rightarrow> (int \<times> string) option" where
  "leadingInt s = leadingInt_loop 0 s"

definition atoi :: "string \<Rightarrow> int option" where
  "atoi s0 =
     (let signed = (s0 \<noteq> [] \<and> (hd s0 = CHR ''-'' \<or> hd s0 = CHR ''+''));
          neg = (signed \<and> hd s0 = CHR ''-'');
          s = (if signed then tl s0 else s0)
      in case leadingInt s of
           None \<Rightarrow> None
         | Some (q, rem) \<Rightarrow>
             if rem \<noteq> [] then None else Some (if neg then - q else q))"

definition commaOrPeriod :: "char \<Rightarrow> bool" where
  "commaOrPeriod c = (c = CHR ''.'' \<or> c = CHR '','')"

text \<open>
  \<^verbatim>\<open>parseNanoseconds\<close>: a fraction of a second of \<open>nbytes - 1\<close> digits after its
  separator, cut after nine digits, scaled to nanoseconds.
\<close>

definition parseNanoseconds :: "string \<Rightarrow> nat \<Rightarrow> int option" where
  "parseNanoseconds val0 nbytes0 =
     (if val0 = [] \<or> \<not> commaOrPeriod (hd val0) then None
      else
        (let (val, nbytes) = (if nbytes0 > 10 then (take 10 val0, 10) else (val0, nbytes0))
         in case atoi (take (nbytes - 1) (drop 1 val)) of
              None \<Rightarrow> None
            | Some ns \<Rightarrow> if ns < 0 then None else Some (ns * 10 ^ (10 - nbytes))))"

text \<open>The number of bytes of the fraction: its separator and the digits after it.\<close>

definition frac_len :: "string \<Rightarrow> nat" where
  "frac_len val = 2 + length (takeWhile (\<lambda>c. isDigit [c] 0) (drop 2 val))"

text \<open>
  The seconds chunk \<^verbatim>\<open>05\<close>: two digits below 60, then a fraction of a second when the
  input has one, although the layout has none.
\<close>

definition parse_second :: "string \<Rightarrow> (int \<times> int \<times> string) option" where
  "parse_second val0 = do {
     (sec, val) \<leftarrow> getnum val0 True;
     (if sec < 0 \<or> 60 \<le> sec then None
      else if length val \<ge> 2 \<and> commaOrPeriod (val ! 0) \<and> isDigit val 1 then
        do {
          let n = frac_len val;
          ns \<leftarrow> parseNanoseconds val n;
          Some (sec, ns, drop n val)
        }
      else Some (sec, 0, val))
   }"

text \<open>The year chunk \<^verbatim>\<open>2006\<close>: exactly four digits.\<close>

definition parse_year :: "string \<Rightarrow> (int \<times> string) option" where
  "parse_year val =
     (if length val < 4 \<or> \<not> isDigit val 0 then None
      else do { year \<leftarrow> atoi (take 4 val); Some (year, drop 4 val) })"

text \<open>
  The zone chunk \<^verbatim>\<open>-0700\<close>: a sign, two digits of hours and two of minutes. Hours up to 24
  and minutes up to 60 are let through.
\<close>

definition parse_zone :: "string \<Rightarrow> (int \<times> string) option" where
  "parse_zone val =
     (if length val < 5 then None
      else do {
        let sign = take 1 val;
        let hour = take 2 (drop 1 val);
        let min = take 2 (drop 3 val);
        (hr, _) \<leftarrow> getnum hour True;
        (mm, _) \<leftarrow> getnum min True;
        (ss, _) \<leftarrow> getnum ''00'' True;
        (if hr > 24 \<or> mm > 60 \<or> ss > 60 then None
         else
           (let zoneOffset = (hr * 60 + mm) * 60 + ss
            in if sign = ''+'' then Some (zoneOffset, drop 5 val)
               else if sign = ''-'' then Some (- zoneOffset, drop 5 val)
               else None))
      })"

text \<open>
  What follows the weekday chunk. The day of the month is tested against the month only
  after the whole input is read, and text left over is an error.
\<close>

definition parse_rest :: "string \<Rightarrow> Time option" where
  "parse_rest val0 = do {
     val \<leftarrow> skip val0 '', '';
     (day, val) \<leftarrow> getnum val True;
     val \<leftarrow> skip val '' '';
     (m, val) \<leftarrow> lookup shortMonthNames val;
     let month = int m + 1;
     val \<leftarrow> skip val '' '';
     (year, val) \<leftarrow> parse_year val;
     val \<leftarrow> skip val '' '';
     (hour, val) \<leftarrow> getnum val False;
     (if hour < 0 \<or> 24 \<le> hour then None
      else do {
        val \<leftarrow> skip val '':'';
        (min, val) \<leftarrow> getnum val True;
        (if min < 0 \<or> 60 \<le> min then None
         else do {
           val \<leftarrow> skip val '':'';
           (sec, ns, val) \<leftarrow> parse_second val;
           val \<leftarrow> skip val '' '';
           (zoneOffset, val) \<leftarrow> parse_zone val;
           (if val \<noteq> [] then None
            else if day < 1 \<or> day > daysIn month year then None
            else
              (let (s, n) = Date year month day hour min sec ns
               in Some \<lparr>abs_sec = s - zoneOffset, nsec = n, loc_offset = zoneOffset\<rparr>))
         })
      })
   }"

text \<open>
  \<^verbatim>\<open>time.Parse(time.RFC1123Z, value)\<close>. The weekday chunk \<^verbatim>\<open>Mon\<close> takes any of the seven
  short names and drops it: the library's comment there is "Ignore weekday names".
\<close>

definition Parse :: "string \<Rightarrow> Time option" where
  "Parse val0 = do {
     (_, val) \<leftarrow> lookup shortDayNames val0;
     parse_rest val
   }"

text \<open>\<^verbatim>\<open>Time.Weekday\<close>: the day of the week in the time's own location, Sunday being 0.\<close>

definition Weekday :: "Time \<Rightarrow> nat" where
  "Weekday t = absWeekday (abs_sec t + loc_offset t)"

section \<open>The validator (scripts/verify\_rss.go, lines 76--154)\<close>

text \<open>An apostrophe, for the messages that quote a value.\<close>

definition apostrophe :: string where
  "apostrophe = [CHR 0x27]"

text \<open>\<^verbatim>\<open>validateRSSDate\<close> (lines 144--154).\<close>

definition validateRSSDate :: "string \<Rightarrow> error option" where
  "validateRSSDate str =
     (case Parse str of
        None \<Rightarrow> Some (errorString (''invalid date format in '' @ str))
      | Some t \<Rightarrow>
          if str \<noteq> Format t then
            Some (errorString
              (''day of week is not correct: expected '' @ Format t @ '', got '' @ str))
          else None)"

text \<open>\<^verbatim>\<open>RSS.validatePubDate\<close> (lines 92--98).\<close>

definition validatePubDate :: "RSS \<Rightarrow> error option" where
  "validatePubDate r =
     (case validateRSSDate (Channel.PubDate (Channel r)) of
        Some err \<Rightarrow> Some (errorString (''channel pub date: '' @ Error err))
      | None \<Rightarrow> None)"

text \<open>\<^verbatim>\<open>RSS.validateItemDates\<close> (lines 100--108): the loop, then the method.\<close>

fun validateItemDates_loop :: "Item list \<Rightarrow> error option" where
  "validateItemDates_loop [] = None"
| "validateItemDates_loop (item # items) =
     (case validateRSSDate (Item.PubDate item) of
        Some err \<Rightarrow>
          Some (errorString
            (''item '' @ apostrophe @ Item.Title item @ apostrophe @ '' pub date: ''
               @ Error err))
      | None \<Rightarrow> validateItemDates_loop items)"

definition validateItemDates :: "RSS \<Rightarrow> error option" where
  "validateItemDates r = validateItemDates_loop (Items (Channel r))"

text \<open>
  \<^verbatim>\<open>RSS.validateItemGUIDs\<close> (lines 110--119). The Go map \<^verbatim>\<open>map[string]bool\<close> reads
  \<^verbatim>\<open>false\<close> at a key it does not hold.
\<close>

definition map_index :: "(string \<rightharpoonup> bool) \<Rightarrow> string \<Rightarrow> bool" where
  "map_index m k = (case m k of None \<Rightarrow> False | Some b \<Rightarrow> b)"

fun validateItemGUIDs_loop :: "(string \<rightharpoonup> bool) \<Rightarrow> Item list \<Rightarrow> error option" where
  "validateItemGUIDs_loop guids [] = None"
| "validateItemGUIDs_loop guids (item # items) =
     (if map_index guids (GUID item) then
        Some (errorString (''duplicate GUID found: '' @ GUID item))
      else validateItemGUIDs_loop (guids(GUID item \<mapsto> True)) items)"

definition validateItemGUIDs :: "RSS \<Rightarrow> error option" where
  "validateItemGUIDs r = validateItemGUIDs_loop Map.empty (Items (Channel r))"

text \<open>\<^verbatim>\<open>RSS.validatePubDateUpdated\<close> (lines 121--142).\<close>

definition validatePubDateUpdated :: "RSS \<Rightarrow> error option" where
  "validatePubDateUpdated r =
     (if length (Items (Channel r)) = 0 then None
      else
        case Parse (Channel.PubDate (Channel r)) of
          None \<Rightarrow>
            Some (errorString
              (''invalid date format in channel '' @ apostrophe
                 @ Channel.PubDate (Channel r) @ apostrophe))
        | Some chanDate \<Rightarrow>
            (let latestItem = Items (Channel r) ! 0
             in case Parse (Item.PubDate latestItem) of
                  None \<Rightarrow>
                    Some (errorString
                      (''invalid date format in item '' @ apostrophe
                         @ Item.PubDate latestItem @ apostrophe))
                | Some itemDate \<Rightarrow>
                    if \<not> Equal chanDate itemDate then
                      Some (errorString
                        ''publication dates of channel and item do not match'')
                    else None))"

text \<open>
  \<^verbatim>\<open>RSS.Validate\<close> (lines 76--90): the rules in the order of the slice, the loop that
  collects their errors, and the join.
\<close>

definition rules :: "(RSS \<Rightarrow> error option) list" where
  "rules = [validatePubDate, validateItemGUIDs, validateItemDates, validatePubDateUpdated]"

fun Validate_loop :: "(RSS \<Rightarrow> error option) list \<Rightarrow> RSS \<Rightarrow> error option list
    \<Rightarrow> error option list" where
  "Validate_loop [] r errs = errs"
| "Validate_loop (rule # rest) r errs =
     (case rule r of
        Some err \<Rightarrow> Validate_loop rest r (errs @ [Some err])
      | None \<Rightarrow> Validate_loop rest r errs)"

definition Validate :: "RSS \<Rightarrow> error option" where
  "Validate r = Join (Validate_loop rules r [])"

section \<open>Example documents\<close>

text \<open>A well-formed date, the same instant in another zone, and the first with a wrong weekday.\<close>

definition date_utc :: string where
  "date_utc = ''Tue, 01 Jan 2019 00:00:00 +0000''"

definition date_pst :: string where
  "date_pst = ''Mon, 31 Dec 2018 16:00:00 -0800''"

definition date_wrong_weekday :: string where
  "date_wrong_weekday = ''Mon, 01 Jan 2019 00:00:00 +0000''"

definition mk_item :: "string \<Rightarrow> string \<Rightarrow> string \<Rightarrow> Item" where
  "mk_item title date guid =
     \<lparr>Item.Title = title, Item.Description = [], Item.PubDate = date, GUID = guid\<rparr>"

definition mk_feed :: "string \<Rightarrow> Item list \<Rightarrow> RSS" where
  "mk_feed date items =
     \<lparr>XMLName = ([], ''rss''),
      Channel = \<lparr>Channel.Title = ''news'', Channel.Description = [],
                 Channel.PubDate = date, Items = items\<rparr>\<rparr>"

text \<open>
  Not the code: the join of the rules in the order in which the specification lists them
  (channel date, item date, item identifier uniqueness, consistency), to compare with
  \<^verbatim>\<open>Validate\<close>.
\<close>

definition Validate_spec_order :: "RSS \<Rightarrow> error option" where
  "Validate_spec_order r =
     Join [validatePubDate r, validateItemDates r, validateItemGUIDs r,
           validatePubDateUpdated r]"

section \<open>Facts about the loops\<close>

lemma Validate_loop_filter:
  "Validate_loop rs r errs = errs @ filter (\<lambda>e. e \<noteq> None) (map (\<lambda>rule. rule r) rs)"
proof (induction rs arbitrary: errs)
  case Nil
  show ?case by simp
next
  case (Cons a rs)
  show ?case by (cases "a r") (simp_all add: Cons.IH)
qed

lemma map_filter_filter:
  "List.map_filter (\<lambda>e. e) (filter (\<lambda>e. e \<noteq> None) xs) = List.map_filter (\<lambda>e. e) xs"
  by (induction xs) (auto simp: List.map_filter_simps split: option.splits)

lemma Join_filter: "Join (filter (\<lambda>e. e \<noteq> None) xs) = Join xs"
  by (simp only: Join_def map_filter_filter)

lemma Validate_Join:
  "Validate r =
     Join [validatePubDate r, validateItemGUIDs r, validateItemDates r,
           validatePubDateUpdated r]"
  unfolding Validate_def Validate_loop_filter rules_def
  by (simp only: list.map append_Nil Join_filter)

lemma Join_None: "Join errs = None \<longleftrightarrow> (\<forall>e\<in>set errs. e = None)"
  by (induction errs)
     (auto simp: Join_def List.map_filter_simps Let_def split: option.splits if_splits)

lemma validateItemDates_loop_None:
  "validateItemDates_loop items = None
     \<longleftrightarrow> (\<forall>i\<in>set items. validateRSSDate (Item.PubDate i) = None)"
  by (induction items) (auto split: option.splits)

lemma validateItemDates_loop_first:
  "\<forall>i\<in>set pre. validateRSSDate (Item.PubDate i) = None \<Longrightarrow>
   validateRSSDate (Item.PubDate x) = Some e \<Longrightarrow>
   validateItemDates_loop (pre @ x # post) =
     Some (errorString
       (''item '' @ apostrophe @ Item.Title x @ apostrophe @ '' pub date: '' @ Error e))"
  by (induction pre) auto

lemma validateItemGUIDs_loop_None:
  "validateItemGUIDs_loop g items = None
     \<longleftrightarrow> distinct (map GUID items) \<and> (\<forall>i\<in>set items. \<not> map_index g (GUID i))"
  by (induction items arbitrary: g) (auto simp: map_index_def intro: rev_image_eqI)

lemma validateItemGUIDs_loop_first:
  "distinct (map GUID pre) \<Longrightarrow> \<forall>i\<in>set pre. \<not> map_index g (GUID i) \<Longrightarrow>
   map_index g (GUID x) \<or> GUID x \<in> GUID ` set pre \<Longrightarrow>
   validateItemGUIDs_loop g (pre @ x # post) =
     Some (errorString (''duplicate GUID found: '' @ GUID x))"
proof (induction pre arbitrary: g)
  case Nil
  then show ?case by simp
next
  case (Cons a pre)
  have "validateItemGUIDs_loop (g(GUID a \<mapsto> True)) (pre @ x # post) =
      Some (errorString (''duplicate GUID found: '' @ GUID x))"
    using Cons.prems by (intro Cons.IH) (auto simp: map_index_def intro: rev_image_eqI)
  then show ?case using Cons.prems by simp
qed

lemma validateItemGUIDs_loop_Some:
  "validateItemGUIDs_loop g items = Some e \<Longrightarrow>
   \<exists>x\<in>set items. e = errorString (''duplicate GUID found: '' @ GUID x)"
  by (induction items arbitrary: g) (auto split: if_splits)

section \<open>Facts about the weekday chunk\<close>

lemma Weekday_less: "Weekday t < 7"
  unfolding Weekday_def absWeekday_def by (simp add: nat_less_iff)

lemma shortDayNames_length: "\<forall>v\<in>set shortDayNames. length v = 3"
  by (simp add: shortDayNames_def)

lemma shortDayNames_nth: "i < 7 \<Longrightarrow> shortDayNames ! i \<in> set shortDayNames"
  by (rule nth_mem) (simp add: shortDayNames_def)

lemma longDayNames_take:
  assumes "i < 7"
  shows "take 3 (longDayNames ! i) = shortDayNames ! i"
proof -
  from assms have "i = 0 \<or> i = 1 \<or> i = 2 \<or> i = 3 \<or> i = 4 \<or> i = 5 \<or> i = 6"
    by arith
  then show ?thesis
    by (elim disjE) (simp_all add: longDayNames_def shortDayNames_def)
qed

lemma take3_Format: "take 3 (Format t) = shortDayNames ! Weekday t"
proof -
  obtain y m d where D: "absDate (abs_sec t + loc_offset t) = (y, m, d)"
    by (cases "absDate (abs_sec t + loc_offset t)")
  obtain h mi s where C: "absClock (abs_sec t + loc_offset t) = (h, mi, s)"
    by (cases "absClock (abs_sec t + loc_offset t)")
  have "\<exists>rest. Format t = take 3 (longDayNames ! Weekday t) @ rest"
    by (simp add: Format_def Weekday_def Let_def D C)
  then obtain rest where F: "Format t = take 3 (longDayNames ! Weekday t) @ rest" ..
  have "length (shortDayNames ! Weekday t) = 3"
    using shortDayNames_nth[OF Weekday_less] shortDayNames_length by blast
  then show ?thesis
    using F longDayNames_take[OF Weekday_less, of t] by simp
qed

lemma lookup_shortDayNames:
  assumes "wd \<in> set shortDayNames"
  shows "\<exists>i. lookup shortDayNames (wd @ rest) = Some (i, rest)"
proof -
  from assms have "wd = ''Sun'' \<or> wd = ''Mon'' \<or> wd = ''Tue'' \<or> wd = ''Wed''
      \<or> wd = ''Thu'' \<or> wd = ''Fri'' \<or> wd = ''Sat''"
    by (simp add: shortDayNames_def)
  then show ?thesis
    by (elim disjE) (simp_all add: shortDayNames_def lookup_def)
qed

lemma lookup_from_drop:
  "\<forall>v\<in>set tab. length v = n \<Longrightarrow> lookup_from i tab val = Some (j, rest) \<Longrightarrow>
   rest = drop n val"
  by (induction tab arbitrary: i) (auto split: if_splits)

lemma Parse_weekday: "wd \<in> set shortDayNames \<Longrightarrow> Parse (wd @ rest) = parse_rest rest"
  using lookup_shortDayNames[of wd rest] by (auto simp: Parse_def)

lemma Parse_parse_rest:
  assumes "Parse s = Some t"
  shows "parse_rest (drop 3 s) = Some t"
proof -
  from assms obtain i rest
    where L: "lookup shortDayNames s = Some (i, rest)" and R: "parse_rest rest = Some t"
    by (auto simp: Parse_def split: bind_splits)
  from L have "rest = drop 3 s"
    unfolding lookup_def using lookup_from_drop[OF shortDayNames_length] by blast
  with R show ?thesis by simp
qed

lemma Parse_replace_weekday:
  "Parse s = Some t \<Longrightarrow> wd \<in> set shortDayNames \<Longrightarrow> Parse (wd @ drop 3 s) = Some t"
  by (simp add: Parse_weekday Parse_parse_rest)

section \<open>The example dates, evaluated\<close>

lemma Parse_date_utc:
  "Parse date_utc = Some \<lparr>abs_sec = 63681897600, nsec = 0, loc_offset = 0\<rparr>"
  by code_simp

lemma Parse_date_pst:
  "Parse date_pst = Some \<lparr>abs_sec = 63681897600, nsec = 0, loc_offset = - 28800\<rparr>"
  by code_simp

lemma Parse_date_wrong_weekday:
  "Parse date_wrong_weekday = Some \<lparr>abs_sec = 63681897600, nsec = 0, loc_offset = 0\<rparr>"
  by code_simp

lemma Format_date_utc:
  "Format \<lparr>abs_sec = 63681897600, nsec = 0, loc_offset = 0\<rparr> = date_utc"
  by code_simp

lemma Format_date_pst:
  "Format \<lparr>abs_sec = 63681897600, nsec = 0, loc_offset = - 28800\<rparr> = date_pst"
  by code_simp

lemma validateRSSDate_date_utc: "validateRSSDate date_utc = None"
  by (simp add: validateRSSDate_def Parse_date_utc Format_date_utc)

lemma validateRSSDate_date_pst: "validateRSSDate date_pst = None"
  by (simp add: validateRSSDate_def Parse_date_pst Format_date_pst)

lemma validateRSSDate_date_wrong_weekday:
  "validateRSSDate date_wrong_weekday =
     Some (errorString (''day of week is not correct: expected '' @ date_utc @ '', got ''
       @ date_wrong_weekday))"
  by (simp add: validateRSSDate_def Parse_date_wrong_weekday Format_date_utc)
     (simp add: date_utc_def date_wrong_weekday_def)

lemma Parse_bad: "Parse ''bad'' = None"
  by code_simp

lemma validateRSSDate_bad:
  "validateRSSDate ''bad'' = Some (errorString ''invalid date format in bad'')"
  by (simp add: validateRSSDate_def Parse_bad)

section \<open>The claims\<close>

text \<open>
  C1 (as amended). \<^verbatim>\<open>Validate\<close> runs all four rules whatever the others return and joins
  every error they produce into one error, in the order of the slice in the code: channel
  date rule, item identifier uniqueness rule, item date rule, channel/latest-item
  consistency rule. It is nil when no rule produces an error, and the message of the joined
  error is the rules' messages in that order, one per line.
\<close>

theorem Validate_joins_all_rules_in_slice_order:
  "Validate r =
     (case List.map_filter (\<lambda>e. e)
             [validatePubDate r, validateItemGUIDs r, validateItemDates r,
              validatePubDateUpdated r] of
        [] \<Rightarrow> None
      | e # es \<Rightarrow> Some (joinError (e # es)))
   \<and> map_option Error (Validate r) =
       (case List.map_filter (map_option Error)
               [validatePubDate r, validateItemGUIDs r, validateItemDates r,
                validatePubDateUpdated r] of
          [] \<Rightarrow> None
        | m # ms \<Rightarrow> Some (join_lines (m # ms)))"
proof -
  let ?rs = "[validatePubDate r, validateItemGUIDs r, validateItemDates r,
              validatePubDateUpdated r]"
  have V: "Validate r = Join ?rs" by (rule Validate_Join)
  have M: "List.map_filter (map_option Error) xs = map Error (List.map_filter (\<lambda>e. e) xs)"
    for xs :: "error option list"
    by (induction xs) (auto simp: List.map_filter_simps split: option.splits)
  show ?thesis
    unfolding V M Join_def Let_def
    by (cases "List.map_filter (\<lambda>e. e) ?rs") simp_all
qed

text \<open>
  C1, as the specification states it, fails on a feed whose second item repeats the first
  item's identifier and has an ill-formed date: the duplicate-identifier error comes before
  the item-date error.
\<close>

theorem Validate_spec_order_counterexample:
  "Validate (mk_feed date_utc [mk_item ''one'' date_pst ''a'', mk_item ''two'' ''bad'' ''a''])
     = Some (joinError
         [errorString ''duplicate GUID found: a'',
          errorString ''item 'two' pub date: invalid date format in bad''])
   \<and> Validate (mk_feed date_utc [mk_item ''one'' date_pst ''a'', mk_item ''two'' ''bad'' ''a''])
     \<noteq> Validate_spec_order
         (mk_feed date_utc [mk_item ''one'' date_pst ''a'', mk_item ''two'' ''bad'' ''a''])"
proof -
  let ?r = "mk_feed date_utc [mk_item ''one'' date_pst ''a'', mk_item ''two'' ''bad'' ''a'']"
  have 1: "validatePubDate ?r = None"
    by (simp add: validatePubDate_def mk_feed_def validateRSSDate_date_utc)
  have 2: "validateItemGUIDs ?r = Some (errorString ''duplicate GUID found: a'')"
    by (simp add: validateItemGUIDs_def mk_feed_def mk_item_def map_index_def)
  have 3: "validateItemDates ?r =
      Some (errorString ''item 'two' pub date: invalid date format in bad'')"
    by (simp add: validateItemDates_def mk_feed_def mk_item_def validateRSSDate_date_pst
        validateRSSDate_bad apostrophe_def)
  have 4: "validatePubDateUpdated ?r = None"
    by (simp add: validatePubDateUpdated_def mk_feed_def mk_item_def Parse_date_utc
        Parse_date_pst Equal_def)
  show ?thesis
    by (simp add: Validate_Join Validate_spec_order_def 1 2 3 4 Join_def
        List.map_filter_simps)
qed

theorem Validate_joins_all_rules_in_slice_order_witness:
  "map_option Error
     (Validate (mk_feed ''bad'' [mk_item ''one'' ''bad'' ''a'', mk_item ''two'' ''bad'' ''a'']))
   = Some (join_lines
       [''channel pub date: invalid date format in bad'',
        ''duplicate GUID found: a'',
        ''item 'one' pub date: invalid date format in bad'',
        ''invalid date format in channel '' @ apostrophe @ ''bad'' @ apostrophe])"
proof -
  let ?r = "mk_feed ''bad'' [mk_item ''one'' ''bad'' ''a'', mk_item ''two'' ''bad'' ''a'']"
  have 1: "validatePubDate ?r =
      Some (errorString ''channel pub date: invalid date format in bad'')"
    by (simp add: validatePubDate_def mk_feed_def validateRSSDate_bad)
  have 2: "validateItemGUIDs ?r = Some (errorString ''duplicate GUID found: a'')"
    by (simp add: validateItemGUIDs_def mk_feed_def mk_item_def map_index_def)
  have 3: "validateItemDates ?r =
      Some (errorString ''item 'one' pub date: invalid date format in bad'')"
    by (simp add: validateItemDates_def mk_feed_def mk_item_def validateRSSDate_bad
        apostrophe_def)
  have 4: "validatePubDateUpdated ?r =
      Some (errorString (''invalid date format in channel '' @ apostrophe @ ''bad''
        @ apostrophe))"
    by (simp add: validatePubDateUpdated_def mk_feed_def mk_item_def Parse_bad)
  from Validate_joins_all_rules_in_slice_order[of ?r] show ?thesis
    unfolding 1 2 3 4 by (simp add: List.map_filter_simps)
qed

text \<open>
  C2. \<^verbatim>\<open>validateRSSDate\<close> returns no error for a string exactly when the string parses
  under the layout and formatting the parsed time under the same layout gives the string
  back.
\<close>

theorem validateRSSDate_round_trip:
  "validateRSSDate s = None \<longleftrightarrow> (\<exists>t. Parse s = Some t \<and> Format t = s)"
  by (cases "Parse s") (auto simp: validateRSSDate_def)

theorem validateRSSDate_round_trip_witness:
  "validateRSSDate ''Tue, 01 Jan 2019 00:00:00 +0000'' = None
   \<and> Parse ''Tue, 01 Jan 2019 00:00:00 +0000''
       = Some \<lparr>abs_sec = 63681897600, nsec = 0, loc_offset = 0\<rparr>
   \<and> Format \<lparr>abs_sec = 63681897600, nsec = 0, loc_offset = 0\<rparr>
       = ''Tue, 01 Jan 2019 00:00:00 +0000''"
proof -
  have P: "Parse ''Tue, 01 Jan 2019 00:00:00 +0000''
      = Some \<lparr>abs_sec = 63681897600, nsec = 0, loc_offset = 0\<rparr>"
    using Parse_date_utc by (simp add: date_utc_def)
  have F: "Format \<lparr>abs_sec = 63681897600, nsec = 0, loc_offset = 0\<rparr>
      = ''Tue, 01 Jan 2019 00:00:00 +0000''"
    using Format_date_utc by (simp add: date_utc_def)
  from P F have "\<exists>t. Parse ''Tue, 01 Jan 2019 00:00:00 +0000'' = Some t
      \<and> Format t = ''Tue, 01 Jan 2019 00:00:00 +0000''"
    by blast
  with validateRSSDate_round_trip[of "''Tue, 01 Jan 2019 00:00:00 +0000''"]
  have "validateRSSDate ''Tue, 01 Jan 2019 00:00:00 +0000'' = None"
    by blast
  with P F show ?thesis by blast
qed

text \<open>
  C3. Let \<^verbatim>\<open>validateRSSDate\<close> accept a string \<open>s\<close> that parses to the time \<open>t\<close>. Then
  \<open>s\<close> starts with the short name of the weekday of \<open>t\<close>, and putting any other of the
  seven short weekday names in its place, with the rest of the string unchanged, gives a
  string that still parses but is rejected with the day-of-week error, which quotes \<open>s\<close> as
  the expected text.
\<close>

theorem validateRSSDate_rejects_wrong_weekday:
  assumes "validateRSSDate s = None"
    and "Parse s = Some t"
    and "wd \<in> set shortDayNames"
    and "wd \<noteq> shortDayNames ! Weekday t"
  shows "s = shortDayNames ! Weekday t @ drop 3 s
    \<and> Parse (wd @ drop 3 s) = Some t
    \<and> validateRSSDate (wd @ drop 3 s) =
        Some (errorString
          (''day of week is not correct: expected '' @ s @ '', got '' @ wd @ drop 3 s))"
proof -
  from assms(1,2) have F: "Format t = s"
    by (auto simp: validateRSSDate_def split: if_splits)
  then have T: "take 3 s = shortDayNames ! Weekday t"
    using take3_Format[of t] by simp
  have S: "s = shortDayNames ! Weekday t @ drop 3 s"
    using append_take_drop_id[of 3 s] T by simp
  have P: "Parse (wd @ drop 3 s) = Some t"
    using assms(2,3) by (rule Parse_replace_weekday)
  have "length wd = 3"
    using assms(3) shortDayNames_length by blast
  then have "take 3 (wd @ drop 3 s) = wd"
    by simp
  with T assms(4) have "wd @ drop 3 s \<noteq> s"
    by metis
  with P F S show ?thesis
    by (simp add: validateRSSDate_def)
qed

theorem validateRSSDate_rejects_wrong_weekday_witness:
  "validateRSSDate ''Tue, 01 Jan 2019 00:00:00 +0000'' = None
   \<and> ''Mon'' \<in> set shortDayNames
   \<and> ''Mon'' \<noteq> shortDayNames ! Weekday \<lparr>abs_sec = 63681897600, nsec = 0, loc_offset = 0\<rparr>
   \<and> validateRSSDate ''Mon, 01 Jan 2019 00:00:00 +0000'' =
       Some (errorString
         (''day of week is not correct: expected Tue, 01 Jan 2019 00:00:00 +0000''
            @ '', got Mon, 01 Jan 2019 00:00:00 +0000''))"
proof -
  let ?t = "\<lparr>abs_sec = 63681897600, nsec = 0, loc_offset = 0\<rparr>"
  have 1: "validateRSSDate ''Tue, 01 Jan 2019 00:00:00 +0000'' = None"
    using validateRSSDate_date_utc by (simp add: date_utc_def)
  have 2: "Parse ''Tue, 01 Jan 2019 00:00:00 +0000'' = Some ?t"
    using Parse_date_utc by (simp add: date_utc_def)
  have 3: "''Mon'' \<in> set shortDayNames"
    by (simp add: shortDayNames_def)
  have 4: "''Mon'' \<noteq> shortDayNames ! Weekday ?t"
    by code_simp
  from validateRSSDate_rejects_wrong_weekday[OF 1 2 3 4] 1 3 4 show ?thesis
    by simp
qed

text \<open>
  C4. \<^verbatim>\<open>validateItemDates\<close> returns no error exactly when \<^verbatim>\<open>validateRSSDate\<close> accepts the
  date of every item. Otherwise, for the first item in sequence order whose date is
  rejected, it returns one error that carries that item's title and the date's error,
  whatever items follow.
\<close>

theorem validateItemDates_first_invalid_item:
  "(validateItemDates r = None
      \<longleftrightarrow> (\<forall>i\<in>set (Items (Channel r)). validateRSSDate (Item.PubDate i) = None))
   \<and> (\<forall>pre x post e.
         Items (Channel r) = pre @ x # post
         \<and> (\<forall>i\<in>set pre. validateRSSDate (Item.PubDate i) = None)
         \<and> validateRSSDate (Item.PubDate x) = Some e
         \<longrightarrow> validateItemDates r =
               Some (errorString
                 (''item '' @ apostrophe @ Item.Title x @ apostrophe @ '' pub date: ''
                    @ Error e)))"
  by (simp add: validateItemDates_def validateItemDates_loop_None
      validateItemDates_loop_first)

theorem validateItemDates_first_invalid_item_witness:
  "validateRSSDate date_utc = None
   \<and> validateRSSDate ''bad'' = Some (errorString ''invalid date format in bad'')
   \<and> validateRSSDate date_wrong_weekday \<noteq> None
   \<and> validateItemDates
        (mk_feed date_utc
           [mk_item ''one'' date_utc ''a'', mk_item ''two'' ''bad'' ''b'',
            mk_item ''three'' date_wrong_weekday ''c''])
      = Some (errorString ''item 'two' pub date: invalid date format in bad'')"
proof -
  let ?a = "mk_item ''one'' date_utc ''a''"
  let ?b = "mk_item ''two'' ''bad'' ''b''"
  let ?c = "mk_item ''three'' date_wrong_weekday ''c''"
  let ?r = "mk_feed date_utc [?a, ?b, ?c]"
  have 1: "Items (Channel ?r) = [?a] @ ?b # [?c]"
    by (simp add: mk_feed_def)
  have 2: "\<forall>i\<in>set [?a]. validateRSSDate (Item.PubDate i) = None"
    by (simp add: mk_item_def validateRSSDate_date_utc)
  have 3: "validateRSSDate (Item.PubDate ?b) = Some (errorString ''invalid date format in bad'')"
    by (simp add: mk_item_def validateRSSDate_bad)
  have "validateItemDates ?r =
      Some (errorString
        (''item '' @ apostrophe @ Item.Title ?b @ apostrophe @ '' pub date: ''
           @ Error (errorString ''invalid date format in bad'')))"
    using validateItemDates_first_invalid_item[of ?r] 1 2 3 by blast
  then have "validateItemDates ?r =
      Some (errorString ''item 'two' pub date: invalid date format in bad'')"
    by (simp add: mk_item_def apostrophe_def)
  then show ?thesis
    by (simp add: validateRSSDate_date_utc validateRSSDate_bad
        validateRSSDate_date_wrong_weekday)
qed

text \<open>
  C5. \<^verbatim>\<open>validateItemGUIDs\<close> returns no error exactly when the identifiers of the items are
  pairwise distinct. Otherwise, for the first item in sequence order whose identifier
  equals that of an earlier item, it returns one error that names that identifier, whatever
  items follow.
\<close>

theorem validateItemGUIDs_first_duplicate:
  "(validateItemGUIDs r = None \<longleftrightarrow> distinct (map GUID (Items (Channel r))))
   \<and> (\<forall>pre x post.
         Items (Channel r) = pre @ x # post
         \<and> distinct (map GUID pre)
         \<and> GUID x \<in> GUID ` set pre
         \<longrightarrow> validateItemGUIDs r =
               Some (errorString (''duplicate GUID found: '' @ GUID x)))"
  by (simp add: validateItemGUIDs_def validateItemGUIDs_loop_None
      validateItemGUIDs_loop_first map_index_def)

theorem validateItemGUIDs_first_duplicate_witness:
  "validateItemGUIDs
     (mk_feed date_utc
        [mk_item ''one'' date_utc ''abc123'', mk_item ''two'' date_utc ''x'',
         mk_item ''three'' date_utc ''abc123'', mk_item ''four'' date_utc ''x'',
         mk_item ''five'' date_utc ''abc123''])
   = Some (errorString ''duplicate GUID found: abc123'')"
proof -
  let ?pre = "[mk_item ''one'' date_utc ''abc123'', mk_item ''two'' date_utc ''x'']"
  let ?x = "mk_item ''three'' date_utc ''abc123''"
  let ?post = "[mk_item ''four'' date_utc ''x'', mk_item ''five'' date_utc ''abc123'']"
  let ?r = "mk_feed date_utc (?pre @ ?x # ?post)"
  have 1: "Items (Channel ?r) = ?pre @ ?x # ?post"
    by (simp add: mk_feed_def)
  have 2: "distinct (map GUID ?pre)"
    by (simp add: mk_item_def)
  have 3: "GUID ?x \<in> GUID ` set ?pre"
    by (simp add: mk_item_def)
  have "validateItemGUIDs ?r = Some (errorString (''duplicate GUID found: '' @ GUID ?x))"
    using validateItemGUIDs_first_duplicate[of ?r] 1 2 3 by blast
  then show ?thesis
    by (simp add: mk_item_def)
qed

text \<open>
  C6. With no items, \<^verbatim>\<open>validatePubDateUpdated\<close> returns no error, whatever the channel's
  date is. With at least one item, it returns a format error that quotes the channel's date
  when that date does not parse, and a format error that quotes the date of the item at
  index 0 when the channel's date parses and that item's date does not.
\<close>

theorem validatePubDateUpdated_no_items_or_unparsable:
  "(Items (Channel r) = [] \<longrightarrow> validatePubDateUpdated r = None)
   \<and> (Items (Channel r) \<noteq> [] \<and> Parse (Channel.PubDate (Channel r)) = None
        \<longrightarrow> validatePubDateUpdated r =
              Some (errorString
                (''invalid date format in channel '' @ apostrophe
                   @ Channel.PubDate (Channel r) @ apostrophe)))
   \<and> (Items (Channel r) \<noteq> [] \<and> Parse (Channel.PubDate (Channel r)) \<noteq> None
        \<and> Parse (Item.PubDate (Items (Channel r) ! 0)) = None
        \<longrightarrow> validatePubDateUpdated r =
              Some (errorString
                (''invalid date format in item '' @ apostrophe
                   @ Item.PubDate (Items (Channel r) ! 0) @ apostrophe)))"
  by (auto simp: validatePubDateUpdated_def Let_def)

theorem validatePubDateUpdated_no_items_or_unparsable_witness:
  "Parse ''bad'' = None
   \<and> Parse date_utc \<noteq> None
   \<and> validatePubDateUpdated (mk_feed ''bad'' []) = None
   \<and> validatePubDateUpdated (mk_feed ''bad'' [mk_item ''one'' date_utc ''a''])
       = Some (errorString
           (''invalid date format in channel '' @ apostrophe @ ''bad'' @ apostrophe))
   \<and> validatePubDateUpdated (mk_feed date_utc [mk_item ''one'' ''bad'' ''a''])
       = Some (errorString
           (''invalid date format in item '' @ apostrophe @ ''bad'' @ apostrophe))"
proof -
  let ?r0 = "mk_feed ''bad'' []"
  let ?r1 = "mk_feed ''bad'' [mk_item ''one'' date_utc ''a'']"
  let ?r2 = "mk_feed date_utc [mk_item ''one'' ''bad'' ''a'']"
  have P: "Parse date_utc \<noteq> None"
    by (simp add: Parse_date_utc)
  have 0: "validatePubDateUpdated ?r0 = None"
    using validatePubDateUpdated_no_items_or_unparsable[of ?r0]
    by (simp add: mk_feed_def)
  have 1: "validatePubDateUpdated ?r1 =
      Some (errorString
        (''invalid date format in channel '' @ apostrophe @ ''bad'' @ apostrophe))"
    using validatePubDateUpdated_no_items_or_unparsable[of ?r1] Parse_bad
    by (simp add: mk_feed_def)
  have 2: "validatePubDateUpdated ?r2 =
      Some (errorString
        (''invalid date format in item '' @ apostrophe @ ''bad'' @ apostrophe))"
    using validatePubDateUpdated_no_items_or_unparsable[of ?r2] Parse_bad P
    by (simp add: mk_feed_def mk_item_def)
  from 0 1 2 P Parse_bad show ?thesis
    by blast
qed

text \<open>
  C7. With at least one item, and when the channel's date and the date of the item at index
  0 both parse, \<^verbatim>\<open>validatePubDateUpdated\<close> compares the two instants (seconds and
  nanoseconds), not the strings and not the zones: it returns no error when the instants
  are equal, and the "do not match" error when they differ.
\<close>

theorem validatePubDateUpdated_compares_instants:
  assumes "Items (Channel r) \<noteq> []"
    and "Parse (Channel.PubDate (Channel r)) = Some t"
    and "Parse (Item.PubDate (Items (Channel r) ! 0)) = Some u"
  shows "validatePubDateUpdated r =
    (if abs_sec t = abs_sec u \<and> nsec t = nsec u then None
     else Some (errorString ''publication dates of channel and item do not match''))"
  using assms by (simp add: validatePubDateUpdated_def Let_def Equal_def)

theorem validatePubDateUpdated_compares_instants_witness:
  "''Tue, 01 Jan 2019 00:00:00 +0000'' \<noteq> ''Mon, 31 Dec 2018 16:00:00 -0800''
   \<and> Parse ''Tue, 01 Jan 2019 00:00:00 +0000''
       = Some \<lparr>abs_sec = 63681897600, nsec = 0, loc_offset = 0\<rparr>
   \<and> Parse ''Mon, 31 Dec 2018 16:00:00 -0800''
       = Some \<lparr>abs_sec = 63681897600, nsec = 0, loc_offset = - 28800\<rparr>
   \<and> validatePubDateUpdated
       (mk_feed ''Tue, 01 Jan 2019 00:00:00 +0000''
          [mk_item ''one'' ''Mon, 31 Dec 2018 16:00:00 -0800'' ''a''])
       = None
   \<and> Parse ''Tue, 01 Jan 2019 00:00:00 -0800''
       = Some \<lparr>abs_sec = 63681926400, nsec = 0, loc_offset = - 28800\<rparr>
   \<and> validatePubDateUpdated
       (mk_feed ''Tue, 01 Jan 2019 00:00:00 +0000''
          [mk_item ''one'' ''Tue, 01 Jan 2019 00:00:00 -0800'' ''a''])
       = Some (errorString ''publication dates of channel and item do not match'')"
proof -
  let ?r = "mk_feed ''Tue, 01 Jan 2019 00:00:00 +0000''
              [mk_item ''one'' ''Mon, 31 Dec 2018 16:00:00 -0800'' ''a'']"
  have 1: "Items (Channel ?r) \<noteq> []"
    by (simp add: mk_feed_def)
  have P: "Parse ''Tue, 01 Jan 2019 00:00:00 +0000''
      = Some \<lparr>abs_sec = 63681897600, nsec = 0, loc_offset = 0\<rparr>"
    using Parse_date_utc by (simp add: date_utc_def)
  have Q: "Parse ''Mon, 31 Dec 2018 16:00:00 -0800''
      = Some \<lparr>abs_sec = 63681897600, nsec = 0, loc_offset = - 28800\<rparr>"
    using Parse_date_pst by (simp add: date_pst_def)
  have 2: "Parse (Channel.PubDate (Channel ?r))
      = Some \<lparr>abs_sec = 63681897600, nsec = 0, loc_offset = 0\<rparr>"
    using P by (simp add: mk_feed_def)
  have 3: "Parse (Item.PubDate (Items (Channel ?r) ! 0))
      = Some \<lparr>abs_sec = 63681897600, nsec = 0, loc_offset = - 28800\<rparr>"
    using Q by (simp add: mk_feed_def mk_item_def)
  have A: "validatePubDateUpdated ?r = None"
    using validatePubDateUpdated_compares_instants[OF 1 2 3] by simp
  let ?r' = "mk_feed ''Tue, 01 Jan 2019 00:00:00 +0000''
               [mk_item ''one'' ''Tue, 01 Jan 2019 00:00:00 -0800'' ''a'']"
  have Q': "Parse ''Tue, 01 Jan 2019 00:00:00 -0800''
      = Some \<lparr>abs_sec = 63681926400, nsec = 0, loc_offset = - 28800\<rparr>"
    by code_simp
  have I1: "Items (Channel ?r') \<noteq> []"
    by (simp add: mk_feed_def)
  have I2: "Parse (Channel.PubDate (Channel ?r'))
      = Some \<lparr>abs_sec = 63681897600, nsec = 0, loc_offset = 0\<rparr>"
    using P by (simp add: mk_feed_def)
  have I3: "Parse (Item.PubDate (Items (Channel ?r') ! 0))
      = Some \<lparr>abs_sec = 63681926400, nsec = 0, loc_offset = - 28800\<rparr>"
    using Q' by (simp add: mk_feed_def mk_item_def)
  have B: "validatePubDateUpdated ?r' =
      Some (errorString ''publication dates of channel and item do not match'')"
    using validatePubDateUpdated_compares_instants[OF I1 I2 I3] by simp
  from A B P Q Q' show ?thesis
    by simp
qed

text \<open>
  C8. Let \<^verbatim>\<open>validateRSSDate\<close> accept the channel's date and the date of every item, let the
  identifiers of the items be pairwise distinct, and let the feed either have no items or
  have a channel date and a date of the item at index 0 that parse to equal instants. Then
  \<^verbatim>\<open>Validate\<close> returns no error.
\<close>

theorem Validate_accepts_consistent_feed:
  assumes "validateRSSDate (Channel.PubDate (Channel r)) = None"
    and "\<forall>i\<in>set (Items (Channel r)). validateRSSDate (Item.PubDate i) = None"
    and "distinct (map GUID (Items (Channel r)))"
    and "Items (Channel r) = []
      \<or> (\<exists>t u. Parse (Channel.PubDate (Channel r)) = Some t
            \<and> Parse (Item.PubDate (Items (Channel r) ! 0)) = Some u
            \<and> Equal t u)"
  shows "Validate r = None"
proof -
  have 1: "validatePubDate r = None"
    using assms(1) by (simp add: validatePubDate_def)
  have 2: "validateItemGUIDs r = None"
    using assms(3) by (simp add: validateItemGUIDs_def validateItemGUIDs_loop_None map_index_def)
  have 3: "validateItemDates r = None"
    using assms(2) by (simp add: validateItemDates_def validateItemDates_loop_None)
  have 4: "validatePubDateUpdated r = None"
    using assms(4) by (auto simp: validatePubDateUpdated_def Let_def)
  show ?thesis
    by (simp add: Validate_Join Join_None 1 2 3 4)
qed

theorem Validate_accepts_consistent_feed_witness:
  "validateRSSDate date_utc = None
   \<and> validateRSSDate date_pst = None
   \<and> distinct [''a'', ''b'']
   \<and> Parse date_utc = Some \<lparr>abs_sec = 63681897600, nsec = 0, loc_offset = 0\<rparr>
   \<and> Parse date_pst = Some \<lparr>abs_sec = 63681897600, nsec = 0, loc_offset = - 28800\<rparr>
   \<and> Equal \<lparr>abs_sec = 63681897600, nsec = 0, loc_offset = 0\<rparr>
        \<lparr>abs_sec = 63681897600, nsec = 0, loc_offset = - 28800\<rparr>
   \<and> Validate (mk_feed date_utc [mk_item ''one'' date_pst ''a'', mk_item ''two'' date_utc ''b''])
       = None"
proof -
  let ?r = "mk_feed date_utc [mk_item ''one'' date_pst ''a'', mk_item ''two'' date_utc ''b'']"
  have 1: "validateRSSDate (Channel.PubDate (Channel ?r)) = None"
    by (simp add: mk_feed_def validateRSSDate_date_utc)
  have 2: "\<forall>i\<in>set (Items (Channel ?r)). validateRSSDate (Item.PubDate i) = None"
    by (simp add: mk_feed_def mk_item_def validateRSSDate_date_utc validateRSSDate_date_pst)
  have 3: "distinct (map GUID (Items (Channel ?r)))"
    by (simp add: mk_feed_def mk_item_def)
  have E: "Equal \<lparr>abs_sec = 63681897600, nsec = 0, loc_offset = 0\<rparr>
      \<lparr>abs_sec = 63681897600, nsec = 0, loc_offset = - 28800\<rparr>"
    by (simp add: Equal_def)
  have 4: "Items (Channel ?r) = []
      \<or> (\<exists>t u. Parse (Channel.PubDate (Channel ?r)) = Some t
            \<and> Parse (Item.PubDate (Items (Channel ?r) ! 0)) = Some u
            \<and> Equal t u)"
    using E by (simp add: mk_feed_def mk_item_def Parse_date_utc Parse_date_pst)
  have "Validate ?r = None"
    using Validate_accepts_consistent_feed[OF 1 2 3 4] .
  with E show ?thesis
    by (simp add: validateRSSDate_date_utc validateRSSDate_date_pst Parse_date_utc
        Parse_date_pst)
qed

text \<open>
  C9. The empty identifier is an identifier like any other: when two items of a feed have
  the empty string as their identifier, \<^verbatim>\<open>validateItemGUIDs\<close> returns a
  duplicate-identifier error naming the identifier of some item, and that identifier is the
  empty string when no identifier repeats before the second of the two items.
\<close>

theorem validateItemGUIDs_empty_identifier:
  assumes "i < j"
    and "j < length (Items (Channel r))"
    and "GUID (Items (Channel r) ! i) = []"
    and "GUID (Items (Channel r) ! j) = []"
  shows "(\<exists>x\<in>set (Items (Channel r)).
            validateItemGUIDs r = Some (errorString (''duplicate GUID found: '' @ GUID x)))
    \<and> (distinct (map GUID (take j (Items (Channel r))))
         \<longrightarrow> validateItemGUIDs r = Some (errorString ''duplicate GUID found: ''))"
proof -
  let ?items = "Items (Channel r)"
  have "\<not> distinct (map GUID ?items)"
  proof
    assume D: "distinct (map GUID ?items)"
    have "i < length (map GUID ?items)" and "j < length (map GUID ?items)"
      using assms(1,2) by simp_all
    then have "(map GUID ?items ! i = map GUID ?items ! j) = (i = j)"
      using D by (rule nth_eq_iff_index_eq[rotated])
    then show False
      using assms by simp
  qed
  then have "validateItemGUIDs_loop Map.empty ?items \<noteq> None"
    by (simp add: validateItemGUIDs_loop_None)
  then obtain e where "validateItemGUIDs_loop Map.empty ?items = Some e"
    by blast
  then have A: "\<exists>x\<in>set ?items.
      validateItemGUIDs r = Some (errorString (''duplicate GUID found: '' @ GUID x))"
    using validateItemGUIDs_loop_Some[of Map.empty ?items e]
    by (auto simp: validateItemGUIDs_def)
  have B: "validateItemGUIDs r = Some (errorString ''duplicate GUID found: '')"
    if D: "distinct (map GUID (take j ?items))"
  proof -
    have S: "?items = take j ?items @ ?items ! j # drop (Suc j) ?items"
      using assms(2) by (rule id_take_nth_drop)
    have "?items ! i \<in> set (take j ?items)"
      using assms(1,2) by (metis in_set_conv_nth length_take min.absorb2 nth_take
          less_imp_le_nat)
    then have M: "GUID (?items ! j) \<in> GUID ` set (take j ?items)"
      using assms(3,4) by (metis imageI)
    have "validateItemGUIDs_loop Map.empty
        (take j ?items @ ?items ! j # drop (Suc j) ?items) =
        Some (errorString (''duplicate GUID found: '' @ GUID (?items ! j)))"
      using D M by (intro validateItemGUIDs_loop_first) (simp_all add: map_index_def)
    then show ?thesis
      using S assms(4) by (simp add: validateItemGUIDs_def)
  qed
  from A B show ?thesis
    by blast
qed

theorem validateItemGUIDs_empty_identifier_witness:
  "validateItemGUIDs (mk_feed date_utc [mk_item ''one'' date_utc [], mk_item ''two'' date_utc []])
   = Some (errorString ''duplicate GUID found: '')"
proof -
  let ?r = "mk_feed date_utc [mk_item ''one'' date_utc [], mk_item ''two'' date_utc []]"
  have 1: "(0::nat) < 1"
    by simp
  have 2: "1 < length (Items (Channel ?r))"
    by (simp add: mk_feed_def)
  have 3: "GUID (Items (Channel ?r) ! 0) = []"
    by (simp add: mk_feed_def mk_item_def)
  have 4: "GUID (Items (Channel ?r) ! 1) = []"
    by (simp add: mk_feed_def mk_item_def)
  have 5: "distinct (map GUID (take 1 (Items (Channel ?r))))"
    by (simp add: mk_feed_def)
  from validateItemGUIDs_empty_identifier[OF 1 2 3 4] 5 show ?thesis
    by blast
qed

text \<open>
  C10. \<^verbatim>\<open>validatePubDateUpdated\<close> parses without the round trip. With at least one item,
  and when the channel's date and the date of the first item parse to equal instants, it
  returns no error; and it still returns no error after the weekday names of the two
  strings are replaced by any of the seven short weekday names, among them names that
  \<^verbatim>\<open>validateRSSDate\<close> rejects.
\<close>

theorem validatePubDateUpdated_ignores_weekday:
  assumes "Items (Channel r) = x # xs"
    and "Parse (Channel.PubDate (Channel r)) = Some t"
    and "Parse (Item.PubDate x) = Some u"
    and "Equal t u"
    and "wd1 \<in> set shortDayNames"
    and "wd2 \<in> set shortDayNames"
  shows "validatePubDateUpdated r = None
    \<and> validatePubDateUpdated
        (r\<lparr>Channel := (Channel r)
            \<lparr>Channel.PubDate := wd1 @ drop 3 (Channel.PubDate (Channel r)),
             Items := x\<lparr>Item.PubDate := wd2 @ drop 3 (Item.PubDate x)\<rparr> # xs\<rparr>\<rparr>)
      = None"
proof -
  have A: "validatePubDateUpdated r = None"
    using assms(1-4) by (simp add: validatePubDateUpdated_def Let_def)
  have P: "Parse (wd1 @ drop 3 (Channel.PubDate (Channel r))) = Some t"
    using assms(2,5) by (rule Parse_replace_weekday)
  have Q: "Parse (wd2 @ drop 3 (Item.PubDate x)) = Some u"
    using assms(3,6) by (rule Parse_replace_weekday)
  from A P Q assms(4) show ?thesis
    by (simp add: validatePubDateUpdated_def Let_def)
qed

theorem validatePubDateUpdated_ignores_weekday_witness:
  "validatePubDateUpdated
     (mk_feed ''Mon, 01 Jan 2019 00:00:00 +0000''
        [mk_item ''one'' ''Sat, 31 Dec 2018 16:00:00 -0800'' ''a''])
   = None
   \<and> validatePubDate
       (mk_feed ''Mon, 01 Jan 2019 00:00:00 +0000''
          [mk_item ''one'' ''Sat, 31 Dec 2018 16:00:00 -0800'' ''a''])
     = Some (errorString
         (''channel pub date: day of week is not correct: ''
            @ ''expected Tue, 01 Jan 2019 00:00:00 +0000, ''
            @ ''got Mon, 01 Jan 2019 00:00:00 +0000''))
   \<and> validateItemDates
       (mk_feed ''Mon, 01 Jan 2019 00:00:00 +0000''
          [mk_item ''one'' ''Sat, 31 Dec 2018 16:00:00 -0800'' ''a''])
     = Some (errorString
         (''item 'one' pub date: day of week is not correct: ''
            @ ''expected Mon, 31 Dec 2018 16:00:00 -0800, ''
            @ ''got Sat, 31 Dec 2018 16:00:00 -0800''))"
proof -
  let ?x = "mk_item ''one'' date_pst ''a''"
  let ?r = "mk_feed date_utc [?x]"
  let ?r' = "mk_feed ''Mon, 01 Jan 2019 00:00:00 +0000''
               [mk_item ''one'' ''Sat, 31 Dec 2018 16:00:00 -0800'' ''a'']"
  have 1: "Items (Channel ?r) = ?x # []"
    by (simp add: mk_feed_def)
  have 2: "Parse (Channel.PubDate (Channel ?r))
      = Some \<lparr>abs_sec = 63681897600, nsec = 0, loc_offset = 0\<rparr>"
    by (simp add: mk_feed_def Parse_date_utc)
  have 3: "Parse (Item.PubDate ?x)
      = Some \<lparr>abs_sec = 63681897600, nsec = 0, loc_offset = - 28800\<rparr>"
    by (simp add: mk_item_def Parse_date_pst)
  have 4: "Equal \<lparr>abs_sec = 63681897600, nsec = 0, loc_offset = 0\<rparr>
      \<lparr>abs_sec = 63681897600, nsec = 0, loc_offset = - 28800\<rparr>"
    by (simp add: Equal_def)
  have 5: "''Mon'' \<in> set shortDayNames"
    by (simp add: shortDayNames_def)
  have 6: "''Sat'' \<in> set shortDayNames"
    by (simp add: shortDayNames_def)
  have R: "?r\<lparr>Channel := (Channel ?r)
            \<lparr>Channel.PubDate := ''Mon'' @ drop 3 (Channel.PubDate (Channel ?r)),
             Items := ?x\<lparr>Item.PubDate := ''Sat'' @ drop 3 (Item.PubDate ?x)\<rparr> # []\<rparr>\<rparr>
      = ?r'"
    by (simp add: mk_feed_def mk_item_def date_utc_def date_pst_def)
  have A: "validatePubDateUpdated ?r' = None"
    using validatePubDateUpdated_ignores_weekday[OF 1 2 3 4 5 6] unfolding R by simp
  have PM: "Parse ''Mon, 01 Jan 2019 00:00:00 +0000''
      = Some \<lparr>abs_sec = 63681897600, nsec = 0, loc_offset = 0\<rparr>"
    using Parse_date_wrong_weekday by (simp add: date_wrong_weekday_def)
  have PS: "Parse ''Sat, 31 Dec 2018 16:00:00 -0800''
      = Some \<lparr>abs_sec = 63681897600, nsec = 0, loc_offset = - 28800\<rparr>"
    by code_simp
  have B: "validatePubDate ?r' =
      Some (errorString
        (''channel pub date: day of week is not correct: ''
           @ ''expected Tue, 01 Jan 2019 00:00:00 +0000, ''
           @ ''got Mon, 01 Jan 2019 00:00:00 +0000''))"
    by (simp add: validatePubDate_def validateRSSDate_def mk_feed_def PM Format_date_utc)
       (simp add: date_utc_def)
  have C: "validateItemDates ?r' =
      Some (errorString
        (''item 'one' pub date: day of week is not correct: ''
           @ ''expected Mon, 31 Dec 2018 16:00:00 -0800, ''
           @ ''got Sat, 31 Dec 2018 16:00:00 -0800''))"
    by (simp add: validateItemDates_def validateRSSDate_def mk_feed_def mk_item_def PS
          Format_date_pst)
       (simp add: date_pst_def apostrophe_def)
  from A B C show ?thesis
    by blast
qed

end
